theory Spec2Isabelle
  imports Main "HOL-Library.AList"
begin

section \<open>JavaScript values\<close>

text \<open>
  The session parameters are a JSON-shaped tree. An object is an association list from
  property names to values (insertion order kept, as in JavaScript); an array is a list.
  Numbers stand for themselves only (no arithmetic is done on them), so integers suffice.
  Values are trees: two places of a document never share one object.
\<close>

datatype jsval =
    JUndefined
  | JNull
  | JBool bool
  | JNum int
  | JStr string
  | JArr "jsval list"
  | JObj "(string \<times> jsval) list"

text \<open>The \<^verbatim>\<open>typeof\<close> operator.\<close>

fun typeof :: "jsval \<Rightarrow> string" where
  "typeof JUndefined = ''undefined''"
| "typeof JNull = ''object''"
| "typeof (JBool b) = ''boolean''"
| "typeof (JNum n) = ''number''"
| "typeof (JStr s) = ''string''"
| "typeof (JArr xs) = ''object''"
| "typeof (JObj m) = ''object''"

text \<open>Conversion to a boolean, as \<^verbatim>\<open>!\<close> and \<^verbatim>\<open>||\<close> do it.\<close>

fun truthy :: "jsval \<Rightarrow> bool" where
  "truthy JUndefined = False"
| "truthy JNull = False"
| "truthy (JBool b) = b"
| "truthy (JNum n) = (n \<noteq> 0)"
| "truthy (JStr s) = (s \<noteq> [])"
| "truthy (JArr xs) = True"
| "truthy (JObj m) = True"

text \<open>
  Strict equality \<^verbatim>\<open>===\<close> on primitive values: values of different types are never
  equal. Two objects or arrays are equal only when they are the same reference; the
  class below compares an array's elements with a string and a boolean with a number
  only, so the last equation is never used for two references.
\<close>

fun strict_equals :: "jsval \<Rightarrow> jsval \<Rightarrow> bool" where
  "strict_equals JUndefined JUndefined = True"
| "strict_equals JNull JNull = True"
| "strict_equals (JBool a) (JBool b) = (a = b)"
| "strict_equals (JNum a) (JNum b) = (a = b)"
| "strict_equals (JStr a) (JStr b) = (a = b)"
| "strict_equals v w = False"

datatype exn = Error string | TypeError

text \<open>
  Reading a property \<^verbatim>\<open>v.k\<close>. On \<^verbatim>\<open>undefined\<close> and \<^verbatim>\<open>null\<close> it raises a TypeError. The
  class reads the properties \<^verbatim>\<open>capabilities\<close>, \<^verbatim>\<open>alwaysMatch\<close> and \<^verbatim>\<open>firstMatch\<close> only,
  which no boolean, number, string or array has: there the read gives \<^verbatim>\<open>undefined\<close>.
\<close>

fun get_property :: "jsval \<Rightarrow> string \<Rightarrow> exn + jsval" where
  "get_property JUndefined k = Inl TypeError"
| "get_property JNull k = Inl TypeError"
| "get_property (JObj m) k = Inr (case map_of m k of None \<Rightarrow> JUndefined | Some v \<Rightarrow> v)"
| "get_property v k = Inr JUndefined"

text \<open>
  \<^verbatim>\<open>Array.prototype.indexOf\<close> (strict equality, from index 0) and
  \<^verbatim>\<open>String.prototype.indexOf\<close> (first position of a substring); \<^verbatim>\<open>-1\<close> when absent.
\<close>

fun array_indexOf :: "jsval list \<Rightarrow> jsval \<Rightarrow> int \<Rightarrow> int" where
  "array_indexOf [] x i = - 1"
| "array_indexOf (y # ys) x i = (if strict_equals y x then i else array_indexOf ys x (i + 1))"

fun string_indexOf :: "string \<Rightarrow> string \<Rightarrow> int \<Rightarrow> int" where
  "string_indexOf [] s i = (if s = [] then i else - 1)"
| "string_indexOf (c # cs) s i =
     (if take (length s) (c # cs) = s then i else string_indexOf cs s (i + 1))"

text \<open>
  The method call \<^verbatim>\<open>v.indexOf(s)\<close> with a string argument. Arrays and strings have the
  method; on every other value the call raises a TypeError (\<^verbatim>\<open>undefined\<close> and \<^verbatim>\<open>null\<close>
  have no properties, and on the others \<^verbatim>\<open>indexOf\<close> is not a function).
\<close>

fun indexOf :: "jsval \<Rightarrow> string \<Rightarrow> exn + jsval" where
  "indexOf (JArr xs) s = Inr (JNum (array_indexOf xs (JStr s) 0))"
| "indexOf (JStr t) s = Inr (JNum (string_indexOf t s 0))"
| "indexOf v s = Inl TypeError"

text \<open>
  The method call \<^verbatim>\<open>v.push(x)\<close>: only an array has it, and it appends in place.
\<close>

fun push :: "jsval \<Rightarrow> jsval \<Rightarrow> exn + jsval" where
  "push (JArr xs) x = Inr (JArr (xs @ [x]))"
| "push v x = Inl TypeError"

section \<open>The deepobject dependency\<close>

text \<open>
  \<^verbatim>\<open>String.prototype.split('.')\<close>: the segments between the dots, empty ones included;
  the result is never empty (the empty string gives one empty segment).
\<close>

fun split_dot :: "string \<Rightarrow> string list" where
  "split_dot [] = [[]]"
| "split_dot (c # cs) =
     (if c = CHR ''.'' then [] # split_dot cs
      else (case split_dot cs of [] \<Rightarrow> [[c]] | s # ss \<Rightarrow> (c # s) # ss))"

text \<open>
  Modelled from the spec: the functions \<^verbatim>\<open>DO.get\<close> and \<^verbatim>\<open>DO.set\<close> of the package
  \<^verbatim>\<open>deepobject\<close>, which KEY.js requires (line 89) and which is not among the sources.
  The spec (4.1) says of the setters built on them: the path is a dot-separated sequence
  of mapping-key segments, intermediate mappings are created as needed, and the value is
  written; the doc comments of KEY.js say that with the path \<^verbatim>\<open>something.other\<close> the
  property \<^verbatim>\<open>something.other\<close> below the object is set. The spec (9) describes what the
  source does as implicit dynamic property creation: no segment is rejected.

  \<^verbatim>\<open>get_path\<close> walks down the mappings and gives \<^verbatim>\<open>undefined\<close> where a segment addresses
  nothing. \<^verbatim>\<open>set_path\<close> works on the properties of the object it is given, which it changes
  in place: it writes the value at the last segment, and on the way down keeps a mapping it
  finds and puts a new mapping where the segment holds none (nothing, a scalar or a
  sequence). A path under a sequence is outside what the spec describes; no theorem below
  depends on it.
\<close>

fun get_path :: "jsval \<Rightarrow> string list \<Rightarrow> jsval" where
  "get_path v [] = v"
| "get_path v (s # ss) =
     (case v of
        JObj m \<Rightarrow> (case map_of m s of None \<Rightarrow> JUndefined | Some w \<Rightarrow> get_path w ss)
      | _ \<Rightarrow> JUndefined)"

fun set_path :: "(string \<times> jsval) list \<Rightarrow> string list \<Rightarrow> jsval \<Rightarrow> (string \<times> jsval) list" where
  "set_path m [] x = m"
| "set_path m [s] x = AList.update s x m"
| "set_path m (s # ss) x =
     AList.update s
       (JObj (set_path (case map_of m s of Some (JObj m') \<Rightarrow> m' | _ \<Rightarrow> []) ss x)) m"

definition DO_get :: "jsval \<Rightarrow> string \<Rightarrow> jsval" where
  "DO_get obj path = get_path obj (split_dot path)"

definition DO_set :: "(string \<times> jsval) list \<Rightarrow> string \<Rightarrow> jsval \<Rightarrow> (string \<times> jsval) list" where
  "DO_set obj path x = set_path obj (split_dot path) x"

section \<open>The class Browser\<close>

record browser =
  sessionParameters :: "(string \<times> jsval) list"
  name :: string
  specificKey :: "string option"
  executable :: jsval
  underscore_executable :: jsval

text \<open>
  \<^verbatim>\<open>sessionParameters\<close> is assigned by the constructor only and always holds an object, so
  the field is the object's property list. \<^verbatim>\<open>specificKey\<close> is \<^verbatim>\<open>null\<close> (\<open>None\<close>) or a
  string. \<^verbatim>\<open>underscore_executable\<close> is the property \<^verbatim>\<open>_executable\<close>, which the constructor
  does not create: reading it on a new object gives \<^verbatim>\<open>undefined\<close>.
\<close>

definition new_Browser :: browser where
  "new_Browser =
     \<lparr> sessionParameters =
         [(''capabilities'', JObj [(''alwaysMatch'', JObj []), (''firstMatch'', JArr [])])],
       name = ''browser'',
       specificKey = None,
       executable = JNull,
       underscore_executable = JUndefined \<rparr>"

text \<open>
  A method either returns (the setters return \<^verbatim>\<open>this\<close>) or throws; either way the object
  is left in some state, the second component of the result.
\<close>

datatype completion = Normal | Throw exn

text \<open>
  The object at \<^verbatim>\<open>sessionParameters.capabilities.k\<close> after it was changed in place to \<open>v\<close>.
\<close>

definition store_capability ::
    "string \<Rightarrow> jsval \<Rightarrow> (string \<times> jsval) list \<Rightarrow> (string \<times> jsval) list" where
  "store_capability k v sp =
     (case map_of sp ''capabilities'' of
        Some (JObj cm) \<Rightarrow> AList.update ''capabilities'' (JObj (AList.update k v cm)) sp
      | _ \<Rightarrow> sp)"

text \<open>
  A default parameter value: it stands in when the argument is omitted (\<open>None\<close>). The
  parameter \<^verbatim>\<open>force\<close> of the setters is a boolean, as their doc comments say.
\<close>

fun default_param :: "'a \<Rightarrow> 'a option \<Rightarrow> 'a" where
  "default_param d None = d"
| "default_param d (Some x) = x"

text \<open>
  \<^verbatim>\<open>setAlwaysMatchKey (path, value, force = false)\<close>. \<^verbatim>\<open>DO.set\<close> changes the object
  \<^verbatim>\<open>alwaysMatch\<close> in place; where \<^verbatim>\<open>alwaysMatch\<close> is not an object there is nothing it can
  change.
\<close>

definition setAlwaysMatchKey ::
    "string \<Rightarrow> jsval \<Rightarrow> bool option \<Rightarrow> browser \<Rightarrow> completion \<times> browser" where
  "setAlwaysMatchKey path x force b =
     (case get_property (JObj (sessionParameters b)) ''capabilities'' of
        Inl e \<Rightarrow> (Throw e, b)
      | Inr capabilities \<Rightarrow>
          (case get_property capabilities ''alwaysMatch'' of
             Inl e \<Rightarrow> (Throw e, b)
           | Inr alwaysMatch \<Rightarrow>
               if default_param False force \<or> typeof (DO_get alwaysMatch path) = ''undefined''
               then (case alwaysMatch of
                       JObj am \<Rightarrow>
                         (Normal, b\<lparr>sessionParameters :=
                            store_capability ''alwaysMatch'' (JObj (DO_set am path x))
                              (sessionParameters b)\<rparr>)
                     | _ \<Rightarrow> (Normal, b))
               else (Normal, b)))"

text \<open>
  \<^verbatim>\<open>addFirstMatch (name, value, force = false)\<close>, with the condition as the source has it:
  \<^verbatim>\<open>force || !firstMatch.indexOf(name) === -1\<close>, where \<^verbatim>\<open>!\<close> binds tighter than \<^verbatim>\<open>===\<close>, so
  a boolean is compared with \<^verbatim>\<open>-1\<close>. With \<^verbatim>\<open>force\<close> the right operand is not evaluated.
\<close>

definition addFirstMatch ::
    "string \<Rightarrow> jsval \<Rightarrow> bool option \<Rightarrow> browser \<Rightarrow> completion \<times> browser" where
  "addFirstMatch key x force b =
     (case get_property (JObj (sessionParameters b)) ''capabilities'' of
        Inl e \<Rightarrow> (Throw e, b)
      | Inr capabilities \<Rightarrow>
          (case get_property capabilities ''firstMatch'' of
             Inl e \<Rightarrow> (Throw e, b)
           | Inr firstMatch \<Rightarrow>
               (case (if default_param False force then Inr True
                      else (case indexOf firstMatch key of
                              Inl e \<Rightarrow> Inl e
                            | Inr i \<Rightarrow> Inr (strict_equals (JBool (\<not> truthy i)) (JNum (- 1))))) of
                  Inl e \<Rightarrow> (Throw e, b)
                | Inr False \<Rightarrow> (Normal, b)
                | Inr True \<Rightarrow>
                    (case push firstMatch (JObj [(key, x)]) of
                       Inl e \<Rightarrow> (Throw e, b)
                     | Inr firstMatch' \<Rightarrow>
                         (Normal, b\<lparr>sessionParameters :=
                            store_capability ''firstMatch'' firstMatch' (sessionParameters b)\<rparr>)))))"

text \<open>\<^verbatim>\<open>setRootKey (path, value, force = true)\<close>.\<close>

definition setRootKey ::
    "string \<Rightarrow> jsval \<Rightarrow> bool option \<Rightarrow> browser \<Rightarrow> completion \<times> browser" where
  "setRootKey path x force b =
     (if default_param True force
         \<or> typeof (DO_get (JObj (sessionParameters b)) path) = ''undefined''
      then (Normal, b\<lparr>sessionParameters := DO_set (sessionParameters b) path x\<rparr>)
      else (Normal, b))"

text \<open>
  \<^verbatim>\<open>setSpecificKey (path, value, force = true)\<close>. The guard \<^verbatim>\<open>!this.specificKey\<close> holds for
  \<^verbatim>\<open>null\<close> and for the empty string.
\<close>

definition ConfigurationError :: exn where
  "ConfigurationError = Error ''setSpecificKey called for a browser that doesn't support them''"

fun specificKey_value :: "string option \<Rightarrow> jsval" where
  "specificKey_value None = JNull"
| "specificKey_value (Some k) = JStr k"

fun specificKey_string :: "string option \<Rightarrow> string" where
  "specificKey_string None = ''null''"
| "specificKey_string (Some k) = k"

definition setSpecificKey ::
    "string \<Rightarrow> jsval \<Rightarrow> bool option \<Rightarrow> browser \<Rightarrow> completion \<times> browser" where
  "setSpecificKey path x force b =
     (if \<not> truthy (specificKey_value (specificKey b)) then (Throw ConfigurationError, b)
      else if default_param True force
              \<or> typeof (DO_get (JObj (sessionParameters b))
                         (specificKey_string (specificKey b) @ ''.'' @ path)) = ''undefined''
      then (Normal, b\<lparr>sessionParameters :=
              DO_set (sessionParameters b)
                (''capabilities.alwaysMatch.'' @ specificKey_string (specificKey b) @ ''.'' @ path)
                x\<rparr>)
      else (Normal, b))"

text \<open>\<^verbatim>\<open>getSessionParameters ()\<close> returns the document itself.\<close>

definition getSessionParameters :: "browser \<Rightarrow> jsval" where
  "getSessionParameters b = JObj (sessionParameters b)"

text \<open>\<^verbatim>\<open>setExecutable (executable)\<close> assigns the property \<^verbatim>\<open>_executable\<close> and returns nothing.\<close>

definition setExecutable :: "jsval \<Rightarrow> browser \<Rightarrow> browser" where
  "setExecutable e b = b\<lparr>underscore_executable := e\<rparr>"

text \<open>
  \<^verbatim>\<open>async run (options)\<close> has an empty body: the promise it returns is fulfilled with
  \<^verbatim>\<open>undefined\<close>, and the object is not touched.
\<close>

datatype promise = Resolved jsval | Rejected exn

definition run :: "jsval \<Rightarrow> browser \<Rightarrow> promise \<times> browser" where
  "run options b = (Resolved JUndefined, b)"

fun rejected :: "promise \<Rightarrow> bool" where
  "rejected (Resolved v) = False"
| "rejected (Rejected e) = True"

section \<open>The container kinds of the document\<close>

fun is_mapping :: "jsval \<Rightarrow> bool" where
  "is_mapping (JObj m) = True"
| "is_mapping v = False"

fun is_sequence :: "jsval \<Rightarrow> bool" where
  "is_sequence (JArr xs) = True"
| "is_sequence v = False"

definition alwaysMatch_of :: "browser \<Rightarrow> jsval" where
  "alwaysMatch_of b = get_path (getSessionParameters b) [''capabilities'', ''alwaysMatch'']"

definition firstMatch_of :: "browser \<Rightarrow> jsval" where
  "firstMatch_of b = get_path (getSessionParameters b) [''capabilities'', ''firstMatch'']"

definition well_formed :: "browser \<Rightarrow> bool" where
  "well_formed b = (is_mapping (alwaysMatch_of b) \<and> is_sequence (firstMatch_of b))"

section \<open>Sequences of setter calls\<close>






text \<open>
  The primitive values (\<^verbatim>\<open>undefined\<close>, \<^verbatim>\<open>null\<close>, booleans, numbers, strings): JavaScript
  passes them by value, so a call with a primitive value shares nothing with the document.
\<close>

fun primitive :: "jsval \<Rightarrow> bool" where
  "primitive (JArr xs) = False"
| "primitive (JObj m) = False"
| "primitive v = True"


text \<open>
  A browser as a subclass for Chrome sets it up: the constructor's doc comment (KEY.js,
  lines 116 to 125) shows its document, with \<^verbatim>\<open>chromeOptions: { w3c: true }\<close> under
  \<^verbatim>\<open>alwaysMatch\<close>.
\<close>

definition chrome_like :: browser where
  "chrome_like =
     snd (setSpecificKey ''w3c'' (JBool True) None
            (new_Browser\<lparr>name := ''chrome'', specificKey := Some ''chromeOptions''\<rparr>))"

section \<open>Paths, reads after writes, and the shape of the document\<close>

lemma split_dot_not_Nil: "split_dot p \<noteq> []"
  by (induction p) (auto split: list.splits)


lemma typeof_undefined: "(typeof v = ''undefined'') = (v = JUndefined)"
  by (cases v) simp_all

lemma get_path_set_path: "ss \<noteq> [] \<Longrightarrow> get_path (JObj (set_path m ss x)) ss = x"
proof (induction m ss x rule: set_path.induct)
  case (1 m x)
  then show ?case by simp
next
  case (2 m s x)
  show ?case by (simp add: update_conv')
next
  case (3 m s t ts x)
  then show ?case by (simp add: update_conv')
qed

lemma DO_get_DO_set: "DO_get (JObj (DO_set m p x)) p = x"
  by (simp add: DO_get_def DO_set_def get_path_set_path split_dot_not_Nil)

lemma well_formedD:
  assumes "well_formed b"
  obtains cm am fm where "map_of (sessionParameters b) ''capabilities'' = Some (JObj cm)"
    and "map_of cm ''alwaysMatch'' = Some (JObj am)"
    and "map_of cm ''firstMatch'' = Some (JArr fm)"
proof -
  from assms have a: "is_mapping (alwaysMatch_of b)" and f: "is_sequence (firstMatch_of b)"
    by (simp_all add: well_formed_def)
  from a obtain cm where cm: "map_of (sessionParameters b) ''capabilities'' = Some (JObj cm)"
    by (auto simp: alwaysMatch_of_def getSessionParameters_def split: option.splits jsval.splits)
  from a cm obtain am where "map_of cm ''alwaysMatch'' = Some (JObj am)"
    by (cases "map_of cm ''alwaysMatch''"; cases "the (map_of cm ''alwaysMatch'')")
       (auto simp: alwaysMatch_of_def getSessionParameters_def)
  moreover from f cm obtain fm where "map_of cm ''firstMatch'' = Some (JArr fm)"
    by (cases "map_of cm ''firstMatch''"; cases "the (map_of cm ''firstMatch'')")
       (auto simp: firstMatch_of_def getSessionParameters_def)
  ultimately show ?thesis using cm that by blast
qed

lemma alwaysMatch_of_eq:
  "map_of (sessionParameters b) ''capabilities'' = Some (JObj cm) \<Longrightarrow>
   alwaysMatch_of b = (case map_of cm ''alwaysMatch'' of None \<Rightarrow> JUndefined | Some v \<Rightarrow> v)"
  by (simp add: alwaysMatch_of_def getSessionParameters_def split: option.splits)


lemma store_alwaysMatch:
  assumes "well_formed b"
  shows "alwaysMatch_of (b\<lparr>sessionParameters :=
           store_capability ''alwaysMatch'' v (sessionParameters b)\<rparr>) = v"
    and "firstMatch_of (b\<lparr>sessionParameters :=
           store_capability ''alwaysMatch'' v (sessionParameters b)\<rparr>) = firstMatch_of b"
proof -
  from assms obtain cm am fm
    where cm: "map_of (sessionParameters b) ''capabilities'' = Some (JObj cm)"
    by (rule well_formedD)
  show "alwaysMatch_of (b\<lparr>sessionParameters :=
           store_capability ''alwaysMatch'' v (sessionParameters b)\<rparr>) = v"
    using cm
    by (simp add: alwaysMatch_of_def getSessionParameters_def store_capability_def update_conv')
  show "firstMatch_of (b\<lparr>sessionParameters :=
           store_capability ''alwaysMatch'' v (sessionParameters b)\<rparr>) = firstMatch_of b"
    using cm
    by (simp add: firstMatch_of_def getSessionParameters_def store_capability_def update_conv')
qed


lemma well_formed_alwaysMatch:
  assumes "well_formed b"
  obtains am where "alwaysMatch_of b = JObj am"
  using assms by (cases "alwaysMatch_of b") (simp_all add: well_formed_def)


lemma setAlwaysMatchKey_eq:
  assumes "well_formed b" and "alwaysMatch_of b = JObj am"
  shows "setAlwaysMatchKey p x f b =
           (Normal,
            if default_param False f \<or> DO_get (JObj am) p = JUndefined
            then b\<lparr>sessionParameters :=
                   store_capability ''alwaysMatch'' (JObj (DO_set am p x)) (sessionParameters b)\<rparr>
            else b)"
proof -
  from assms(1) obtain cm am' fm
    where cm: "map_of (sessionParameters b) ''capabilities'' = Some (JObj cm)"
      and am: "map_of cm ''alwaysMatch'' = Some (JObj am')"
    by (rule well_formedD)
  from cm am assms(2) have "am' = am"
    by (simp add: alwaysMatch_of_eq)
  with cm am show ?thesis
    by (simp add: setAlwaysMatchKey_def typeof_undefined)
qed

lemma setAlwaysMatchKey_keeps_well_formed:
  assumes "well_formed b"
  shows "well_formed (snd (setAlwaysMatchKey p x f b))"
proof -
  from assms obtain am where am: "alwaysMatch_of b = JObj am"
    by (rule well_formed_alwaysMatch)
  show ?thesis
    using assms
    by (simp add: setAlwaysMatchKey_eq [OF assms am])
       (simp add: well_formed_def store_alwaysMatch [OF assms])
qed







lemma well_formed_new_Browser: "well_formed new_Browser"
  by (simp add: well_formed_def alwaysMatch_of_def firstMatch_of_def getSessionParameters_def
      new_Browser_def)












lemma force_cases: "f = None \<or> f = Some True \<or> f = Some False"
  by (cases f) auto

section \<open>The claims\<close>

subsection \<open>C1: addFirstMatch\<close>

text \<open>
  C1. The claim: on a new browser \<^verbatim>\<open>addFirstMatch(n, v1)\<close> without \<^verbatim>\<open>force\<close> appends
  \<^verbatim>\<open>{n: v1}\<close>, a second unforced call appends nothing, and a forced call appends. The code
  does not do the first: its condition compares the boolean \<^verbatim>\<open>!firstMatch.indexOf(name)\<close>
  with \<^verbatim>\<open>-1\<close>, which is never equal, so an unforced call appends nothing at all. Evaluated on
  the new browser: the unforced call returns and leaves \<^verbatim>\<open>firstMatch\<close> empty; two forced calls
  append two entries with the same key.
\<close>

theorem addFirstMatch_unforced_appends_nothing:
  "addFirstMatch ''browserName'' (JStr ''chrome'') None new_Browser = (Normal, new_Browser)
   \<and> firstMatch_of (snd (addFirstMatch ''browserName'' (JStr ''chrome'') None new_Browser)) = JArr []
   \<and> firstMatch_of
        (snd (addFirstMatch ''browserName'' (JStr ''firefox'') (Some True)
           (snd (addFirstMatch ''browserName'' (JStr ''chrome'') (Some True) new_Browser))))
       = JArr [JObj [(''browserName'', JStr ''chrome'')], JObj [(''browserName'', JStr ''firefox'')]]"
  by code_simp

subsection \<open>C2: run\<close>

text \<open>
  C2, as amended. The base class supplies \<^verbatim>\<open>run\<close> with an empty body: for every browser and
  every options it resolves with \<^verbatim>\<open>undefined\<close> and leaves the browser as it was, whatever
  executable was recorded.
\<close>

theorem run_resolves_undefined: "run options b = (Resolved JUndefined, b)"
  by (simp add: run_def)

text \<open>
  C2 as stated fails: with the path of an executable that does not exist recorded, \<^verbatim>\<open>run\<close>
  resolves successfully and is not rejected.
\<close>

theorem run_no_SpawnFailure:
  "run (JObj [(''port'', JNum 4444)]) (setExecutable (JStr ''/nonexistent/chromedriver'') new_Browser)
     = (Resolved JUndefined, setExecutable (JStr ''/nonexistent/chromedriver'') new_Browser)
   \<and> \<not> rejected (fst (run (JObj [(''port'', JNum 4444)])
          (setExecutable (JStr ''/nonexistent/chromedriver'') new_Browser)))"
  by (simp add: run_def)

subsection \<open>C3: setExecutable\<close>

text \<open>
  C3. The claim: after \<^verbatim>\<open>setExecutable(p)\<close> the attribute \<^verbatim>\<open>executable\<close> equals \<^verbatim>\<open>p\<close>, and it is
  \<^verbatim>\<open>null\<close> before. The code assigns \<^verbatim>\<open>_executable\<close> instead: \<^verbatim>\<open>executable\<close>, which the
  constructor sets to \<^verbatim>\<open>null\<close>, is left as it was by every call, and the argument is found in
  \<^verbatim>\<open>_executable\<close>.
\<close>

theorem setExecutable_leaves_executable:
  "executable (setExecutable e b) = executable b
   \<and> underscore_executable (setExecutable e b) = e
   \<and> executable new_Browser = JNull
   \<and> executable (setExecutable (JStr ''/usr/bin/chromedriver'') new_Browser) = JNull"
  by (simp add: setExecutable_def new_Browser_def)

subsection \<open>C4: setAlwaysMatchKey\<close>

text \<open>
  C4, as amended. On a browser whose document has \<^verbatim>\<open>alwaysMatch\<close> as a mapping and
  \<^verbatim>\<open>firstMatch\<close> as a sequence: if nothing exists at \<^verbatim>\<open>p\<close> under \<^verbatim>\<open>alwaysMatch\<close> and \<^verbatim>\<open>v1\<close>
  is not \<^verbatim>\<open>undefined\<close>, then \<^verbatim>\<open>setAlwaysMatchKey(p, v1)\<close> followed by
  \<^verbatim>\<open>setAlwaysMatchKey(p, v2)\<close>, both with \<^verbatim>\<open>force\<close> omitted or false, leaves \<^verbatim>\<open>v1\<close> at \<^verbatim>\<open>p\<close>;
  and whatever was at \<^verbatim>\<open>p\<close>, when the second call passes \<^verbatim>\<open>force = true\<close> the value at
  \<^verbatim>\<open>p\<close> becomes \<^verbatim>\<open>v2\<close>.
\<close>

theorem setAlwaysMatchKey_first_write_wins:
  assumes "well_formed b"
  shows "(DO_get (alwaysMatch_of b) p = JUndefined \<and> v1 \<noteq> JUndefined
          \<and> \<not> default_param False f1 \<and> \<not> default_param False f2 \<longrightarrow>
          DO_get (alwaysMatch_of
            (snd (setAlwaysMatchKey p v2 f2 (snd (setAlwaysMatchKey p v1 f1 b))))) p = v1)
       \<and> DO_get (alwaysMatch_of
            (snd (setAlwaysMatchKey p v2 (Some True) (snd (setAlwaysMatchKey p v1 f1 b))))) p = v2"
proof -
  let ?b1 = "snd (setAlwaysMatchKey p v1 f1 b)"
  have wf1: "well_formed ?b1"
    using assms by (rule setAlwaysMatchKey_keeps_well_formed)
  from assms obtain am where am: "alwaysMatch_of b = JObj am"
    by (rule well_formed_alwaysMatch)
  note eq = setAlwaysMatchKey_eq [OF assms am]
  from wf1 obtain am1 where am1: "alwaysMatch_of ?b1 = JObj am1"
    by (rule well_formed_alwaysMatch)
  note eq1 = setAlwaysMatchKey_eq [OF wf1 am1]
  have forced: "DO_get (alwaysMatch_of (snd (setAlwaysMatchKey p v2 (Some True) ?b1))) p = v2"
    by (simp add: eq1 store_alwaysMatch [OF wf1] DO_get_DO_set)
  have first: "DO_get (alwaysMatch_of (snd (setAlwaysMatchKey p v2 f2 ?b1))) p = v1"
    if fresh: "DO_get (alwaysMatch_of b) p = JUndefined" and v1: "v1 \<noteq> JUndefined"
      and f1: "\<not> default_param False f1" and f2: "\<not> default_param False f2"
  proof -
    have b1: "?b1 = b\<lparr>sessionParameters :=
                   store_capability ''alwaysMatch'' (JObj (DO_set am p v1)) (sessionParameters b)\<rparr>"
      using fresh am by (simp add: eq)
    have "alwaysMatch_of ?b1 = JObj (DO_set am p v1)"
      unfolding b1 by (rule store_alwaysMatch [OF assms])
    with am1 have "am1 = DO_set am p v1"
      by simp
    then have g: "DO_get (JObj am1) p = v1"
      by (simp add: DO_get_DO_set)
    with v1 f2 have "snd (setAlwaysMatchKey p v2 f2 ?b1) = ?b1"
      by (simp add: eq1)
    then show ?thesis
      using g am1 by simp
  qed
  from forced first show ?thesis by blast
qed

text \<open>
  The theorem of C4 at the spec's example: the path \<^verbatim>\<open>a.b\<close>, the values 1 and 2, a new browser.
\<close>

theorem setAlwaysMatchKey_first_write_wins_witness:
  "well_formed new_Browser
   \<and> DO_get (alwaysMatch_of new_Browser) ''a.b'' = JUndefined
   \<and> DO_get (alwaysMatch_of
        (snd (setAlwaysMatchKey ''a.b'' (JNum 2) None
           (snd (setAlwaysMatchKey ''a.b'' (JNum 1) None new_Browser))))) ''a.b'' = JNum 1
   \<and> DO_get (alwaysMatch_of
        (snd (setAlwaysMatchKey ''a.b'' (JNum 2) (Some True)
           (snd (setAlwaysMatchKey ''a.b'' (JNum 1) None new_Browser))))) ''a.b'' = JNum 2"
proof -
  have wf: "well_formed new_Browser"
    by (rule well_formed_new_Browser)
  have fresh: "DO_get (alwaysMatch_of new_Browser) ''a.b'' = JUndefined"
    by code_simp
  have other: "JNum 1 \<noteq> JUndefined" "\<not> default_param False None"
    by simp_all
  from setAlwaysMatchKey_first_write_wins
         [OF wf, where p = "''a.b''" and ?v1.0 = "JNum 1" and ?v2.0 = "JNum 2"
            and ?f1.0 = None and ?f2.0 = None]
    wf fresh other
  show ?thesis by blast
qed

text \<open>
  C4 as stated fails. On a browser where \<^verbatim>\<open>a\<close> already holds 0 the two unforced calls
  with 1 and 2 leave 0, not the first of the two values; and on a new browser an unforced
  \<^verbatim>\<open>setAlwaysMatchKey('a', undefined)\<close> does not win over the unforced call that follows,
  which writes 2.
\<close>

theorem setAlwaysMatchKey_existing_value_wins:
  "DO_get (alwaysMatch_of
     (snd (setAlwaysMatchKey ''a'' (JNum 2) None
        (snd (setAlwaysMatchKey ''a'' (JNum 1) None
           (snd (setAlwaysMatchKey ''a'' (JNum 0) None new_Browser))))))) ''a'' = JNum 0
   \<and> DO_get (alwaysMatch_of
     (snd (setAlwaysMatchKey ''a'' (JNum 2) None
        (snd (setAlwaysMatchKey ''a'' JUndefined None new_Browser))))) ''a'' = JNum 2"
  by code_simp

subsection \<open>C5: setRootKey\<close>

text \<open>
  C5. For every browser, every root path \<^verbatim>\<open>p\<close> and values \<^verbatim>\<open>v1\<close>, \<^verbatim>\<open>v2\<close>:
  \<^verbatim>\<open>setRootKey(p, v1)\<close> followed by \<^verbatim>\<open>setRootKey(p, v2)\<close>, both with \<^verbatim>\<open>force\<close> omitted (it
  defaults to true), returns and leaves \<^verbatim>\<open>v2\<close> at \<^verbatim>\<open>p\<close> under the root of the document.
\<close>

theorem setRootKey_last_write_wins:
  "fst (setRootKey p v2 None (snd (setRootKey p v1 None b))) = Normal
   \<and> DO_get (getSessionParameters (snd (setRootKey p v2 None (snd (setRootKey p v1 None b))))) p = v2"
  by (simp add: setRootKey_def getSessionParameters_def DO_get_DO_set)

subsection \<open>C6: setSpecificKey without a specificKey\<close>

text \<open>
  C6. On a browser whose \<^verbatim>\<open>specificKey\<close> is \<^verbatim>\<open>null\<close>, every call of \<^verbatim>\<open>setSpecificKey\<close>
  throws the error and leaves the browser, its document included, as it was. On a browser
  with a \<^verbatim>\<open>specificKey\<close> set (a string that names a sub-object, so not the empty string,
  which the guard \<^verbatim>\<open>!this.specificKey\<close> takes for unset) the call returns.
\<close>

theorem setSpecificKey_needs_specificKey:
  "(specificKey b = None \<longrightarrow> setSpecificKey p x f b = (Throw ConfigurationError, b))
   \<and> (specificKey b = Some k \<and> k \<noteq> [] \<longrightarrow> fst (setSpecificKey p x f b) = Normal)"
  by (simp add: setSpecificKey_def)

text \<open>
  The theorem of C6 on a new browser, and on one given the key \<^verbatim>\<open>chromeOptions\<close>.
\<close>

theorem setSpecificKey_needs_specificKey_witness:
  "specificKey new_Browser = None
   \<and> setSpecificKey ''w3c'' (JBool True) None new_Browser = (Throw ConfigurationError, new_Browser)
   \<and> specificKey (new_Browser\<lparr>specificKey := Some ''chromeOptions''\<rparr>) = Some ''chromeOptions''
   \<and> fst (setSpecificKey ''w3c'' (JBool True) None
            (new_Browser\<lparr>specificKey := Some ''chromeOptions''\<rparr>)) = Normal"
proof -
  have none: "specificKey new_Browser = None"
    by (simp add: new_Browser_def)
  have some: "specificKey (new_Browser\<lparr>specificKey := Some ''chromeOptions''\<rparr>) = Some ''chromeOptions''"
    "''chromeOptions'' \<noteq> []"
    by simp_all
  from setSpecificKey_needs_specificKey
         [where b = new_Browser and p = "''w3c''" and x = "JBool True" and f = None]
       setSpecificKey_needs_specificKey
         [where b = "new_Browser\<lparr>specificKey := Some ''chromeOptions''\<rparr>" and p = "''w3c''"
            and x = "JBool True" and f = None and k = "''chromeOptions''"]
       none some
  show ?thesis by blast
qed

subsection \<open>C7: the document of a new browser\<close>

text \<open>
  C7. A newly constructed browser, before any setter call: \<^verbatim>\<open>getSessionParameters()\<close>
  returns the document whose \<^verbatim>\<open>capabilities.alwaysMatch\<close> is the empty mapping and whose
  \<^verbatim>\<open>capabilities.firstMatch\<close> is the empty sequence.
\<close>

theorem new_Browser_session_parameters:
  "getSessionParameters new_Browser =
     JObj [(''capabilities'', JObj [(''alwaysMatch'', JObj []), (''firstMatch'', JArr [])])]
   \<and> DO_get (getSessionParameters new_Browser) ''capabilities.alwaysMatch'' = JObj []
   \<and> DO_get (getSessionParameters new_Browser) ''capabilities.firstMatch'' = JArr []"
  by code_simp

subsection \<open>C8: the container kinds under sequences of calls\<close>




subsection \<open>C9: malformed paths\<close>

text \<open>
  C9, as amended. A path with an empty segment is not rejected. With the path \<^verbatim>\<open>a..b\<close>, a
  primitive value \<^verbatim>\<open>v\<close> and any \<^verbatim>\<open>force\<close>, on a newly constructed browser
  \<^verbatim>\<open>setAlwaysMatchKey\<close> and \<^verbatim>\<open>setRootKey\<close>, and on one with the \<^verbatim>\<open>specificKey\<close>
  \<^verbatim>\<open>chromeOptions\<close> \<^verbatim>\<open>setSpecificKey\<close>, return without raising and store \<^verbatim>\<open>v\<close> under the nested
  keys \<^verbatim>\<open>a\<close>, the empty string and \<^verbatim>\<open>b\<close>: below \<^verbatim>\<open>alwaysMatch\<close>, below the root, and below
  \<^verbatim>\<open>alwaysMatch.chromeOptions\<close>.
\<close>

theorem empty_segment_accepted:
  assumes "primitive x"
  shows "setAlwaysMatchKey ''a..b'' x f new_Browser =
       (Normal,
        new_Browser\<lparr>sessionParameters :=
          [(''capabilities'',
            JObj [(''alwaysMatch'', JObj [(''a'', JObj [([], JObj [(''b'', x)])])]),
                  (''firstMatch'', JArr [])])]\<rparr>)
   \<and> setRootKey ''a..b'' x f new_Browser =
       (Normal,
        new_Browser\<lparr>sessionParameters :=
          [(''capabilities'', JObj [(''alwaysMatch'', JObj []), (''firstMatch'', JArr [])]),
           (''a'', JObj [([], JObj [(''b'', x)])])]\<rparr>)
   \<and> setSpecificKey ''a..b'' x f (new_Browser\<lparr>specificKey := Some ''chromeOptions''\<rparr>) =
       (Normal,
        new_Browser\<lparr>specificKey := Some ''chromeOptions'', sessionParameters :=
          [(''capabilities'',
            JObj [(''alwaysMatch'',
                   JObj [(''chromeOptions'', JObj [(''a'', JObj [([], JObj [(''b'', x)])])])]),
                  (''firstMatch'', JArr [])])]\<rparr>)"
  using force_cases [of f] by (elim disjE; hypsubst; code_simp)

text \<open>
  The theorem of C9 at the value \<^verbatim>\<open>'v'\<close> with \<^verbatim>\<open>force\<close> omitted.
\<close>

theorem empty_segment_accepted_witness:
  "primitive (JStr ''v'')
   \<and> setAlwaysMatchKey ''a..b'' (JStr ''v'') None new_Browser =
       (Normal,
        new_Browser\<lparr>sessionParameters :=
          [(''capabilities'',
            JObj [(''alwaysMatch'', JObj [(''a'', JObj [([], JObj [(''b'', JStr ''v'')])])]),
                  (''firstMatch'', JArr [])])]\<rparr>)
   \<and> setRootKey ''a..b'' (JStr ''v'') None new_Browser =
       (Normal,
        new_Browser\<lparr>sessionParameters :=
          [(''capabilities'', JObj [(''alwaysMatch'', JObj []), (''firstMatch'', JArr [])]),
           (''a'', JObj [([], JObj [(''b'', JStr ''v'')])])]\<rparr>)
   \<and> setSpecificKey ''a..b'' (JStr ''v'') None (new_Browser\<lparr>specificKey := Some ''chromeOptions''\<rparr>) =
       (Normal,
        new_Browser\<lparr>specificKey := Some ''chromeOptions'', sessionParameters :=
          [(''capabilities'',
            JObj [(''alwaysMatch'',
                   JObj [(''chromeOptions'',
                          JObj [(''a'', JObj [([], JObj [(''b'', JStr ''v'')])])])]),
                  (''firstMatch'', JArr [])])]\<rparr>)"
proof -
  have p: "primitive (JStr ''v'')"
    by simp
  from empty_segment_accepted [OF p, where f = None] p show ?thesis
    by blast
qed

text \<open>
  C9 as stated fails: the path \<^verbatim>\<open>a..b\<close> has an empty middle segment, and with it
  \<^verbatim>\<open>setAlwaysMatchKey\<close> on a new browser returns, having built a mapping under the empty
  key.
\<close>

theorem empty_segment_becomes_key:
  "split_dot ''a..b'' = [''a'', [], ''b'']
   \<and> setAlwaysMatchKey ''a..b'' (JNum 1) None new_Browser =
       (Normal,
        new_Browser\<lparr>sessionParameters :=
          [(''capabilities'',
            JObj [(''alwaysMatch'', JObj [(''a'', JObj [([], JObj [(''b'', JNum 1)])])]),
                  (''firstMatch'', JArr [])])]\<rparr>)"
  by code_simp

subsection \<open>C10: where setSpecificKey looks before it writes\<close>

text \<open>
  C10. On a browser with a \<^verbatim>\<open>specificKey\<close> \<^verbatim>\<open>k\<close> (not empty, so that the guard lets the call
  through), \<^verbatim>\<open>setSpecificKey(p, v, false)\<close> writes exactly when nothing exists at the path
  \<^verbatim>\<open>k.p\<close> under the root of the document, and it writes at
  \<^verbatim>\<open>capabilities.alwaysMatch.k.p\<close>: so whenever nothing exists at the root path, the value
  at the target becomes \<^verbatim>\<open>v\<close>, whether or not one was there.
\<close>

theorem setSpecificKey_checks_root_path:
  assumes "specificKey b = Some k" and "k \<noteq> []"
  shows "setSpecificKey p x (Some False) b =
           (Normal,
            if DO_get (getSessionParameters b) (k @ ''.'' @ p) = JUndefined
            then b\<lparr>sessionParameters :=
                   DO_set (sessionParameters b) (''capabilities.alwaysMatch.'' @ k @ ''.'' @ p) x\<rparr>
            else b)
         \<and> (DO_get (getSessionParameters b) (k @ ''.'' @ p) = JUndefined \<longrightarrow>
              DO_get (getSessionParameters (snd (setSpecificKey p x (Some False) b)))
                (''capabilities.alwaysMatch.'' @ k @ ''.'' @ p) = x)"
proof -
  have eq: "setSpecificKey p x (Some False) b =
           (Normal,
            if DO_get (getSessionParameters b) (k @ ''.'' @ p) = JUndefined
            then b\<lparr>sessionParameters :=
                   DO_set (sessionParameters b) (''capabilities.alwaysMatch.'' @ k @ ''.'' @ p) x\<rparr>
            else b)"
    using assms by (simp add: setSpecificKey_def typeof_undefined getSessionParameters_def)
  have "DO_get (getSessionParameters (snd (setSpecificKey p x (Some False) b)))
                (''capabilities.alwaysMatch.'' @ k @ ''.'' @ p) = x"
    if "DO_get (getSessionParameters b) (k @ ''.'' @ p) = JUndefined"
    unfolding eq using that by (simp add: getSessionParameters_def DO_get_DO_set)
  with eq show ?thesis by blast
qed

text \<open>
  The theorem of C10 on the Chrome-like browser: \<^verbatim>\<open>w3c\<close> is \<^verbatim>\<open>true\<close> at the target, nothing
  is at \<^verbatim>\<open>chromeOptions.w3c\<close> under the root, and the unforced call overwrites the target.
\<close>

theorem setSpecificKey_checks_root_path_witness:
  "specificKey chrome_like = Some ''chromeOptions''
   \<and> DO_get (getSessionParameters chrome_like) ''capabilities.alwaysMatch.chromeOptions.w3c'' = JBool True
   \<and> DO_get (getSessionParameters chrome_like) ''chromeOptions.w3c'' = JUndefined
   \<and> DO_get (getSessionParameters (snd (setSpecificKey ''w3c'' (JBool False) (Some False) chrome_like)))
        ''capabilities.alwaysMatch.chromeOptions.w3c'' = JBool False"
proof -
  have k: "specificKey chrome_like = Some ''chromeOptions''" "''chromeOptions'' \<noteq> []"
    by code_simp+
  have before: "DO_get (getSessionParameters chrome_like) ''capabilities.alwaysMatch.chromeOptions.w3c''
                  = JBool True"
    by code_simp
  have root: "DO_get (getSessionParameters chrome_like) ''chromeOptions.w3c'' = JUndefined"
    by code_simp
  have checked: "''chromeOptions'' @ ''.'' @ ''w3c'' = ''chromeOptions.w3c''"
    by simp
  have target: "''capabilities.alwaysMatch.'' @ ''chromeOptions'' @ ''.'' @ ''w3c''
       = ''capabilities.alwaysMatch.chromeOptions.w3c''"
    by simp
  have "DO_get (getSessionParameters chrome_like) (''chromeOptions'' @ ''.'' @ ''w3c'') = JUndefined"
    unfolding checked by (rule root)
  with setSpecificKey_checks_root_path [OF k, where p = "''w3c''" and x = "JBool False"]
  have "DO_get (getSessionParameters (snd (setSpecificKey ''w3c'' (JBool False) (Some False) chrome_like)))
          (''capabilities.alwaysMatch.'' @ ''chromeOptions'' @ ''.'' @ ''w3c'') = JBool False"
    by blast
  then have "DO_get (getSessionParameters
          (snd (setSpecificKey ''w3c'' (JBool False) (Some False) chrome_like)))
          ''capabilities.alwaysMatch.chromeOptions.w3c'' = JBool False"
    unfolding target .
  with k before root show ?thesis
    by blast
qed

end
